theory Spec2Isabelle
  imports Complex_Main "HOL-Library.Multiset" "HOL-Library.Product_Lexorder"
begin

section \<open>Intervals\<close>

text \<open>
  The abstract class \<open>Interval\<close> of \<open>_itree.py\<close> exposes the two properties \<open>begin\<close> and
  \<open>end\<close>; a concrete subclass adds whatever payload it likes. The record below is that
  class: its extension slot is the subclass's payload. Both words are reserved in Isabelle,
  so the fields are called \<open>ibegin\<close> and \<open>iend\<close>. Python numbers are modelled as rationals
  (integers and the values of floats are rationals; rounding of float arithmetic is not
  modelled).
\<close>

record Interval =
  ibegin :: rat
  iend :: rat

text \<open>\<open>__eq__\<close>, \<open>__hash__\<close> and \<open>__lt__\<close> read the pair \<open>(begin, end)\<close> only.\<close>

definition bounds :: "'a Interval_scheme \<Rightarrow> rat \<times> rat" where
  "bounds x = (ibegin x, iend x)"

text \<open>\<open>contains\<close>: \<open>self.end >= value > self.begin\<close>.\<close>

definition contains :: "'a Interval_scheme \<Rightarrow> rat \<Rightarrow> bool" where
  "contains x v = (iend x \<ge> v \<and> v > ibegin x)"

text \<open>\<open>intersects\<close>: \<open>end > self.begin and begin < self.end\<close>.\<close>

definition intersects :: "'a Interval_scheme \<Rightarrow> rat \<Rightarrow> rat \<Rightarrow> bool" where
  "intersects x b e = (e > ibegin x \<and> b < iend x)"

text \<open>
  The keys of a node's ordered dictionary are intervals compared and hashed by their bounds;
  a key is modelled by the pair of bounds, and the two tests above are repeated on keys.
\<close>

definition key_contains :: "rat \<times> rat \<Rightarrow> rat \<Rightarrow> bool" where
  "key_contains k v = (snd k \<ge> v \<and> v > fst k)"

definition key_intersects :: "rat \<times> rat \<Rightarrow> rat \<Rightarrow> rat \<Rightarrow> bool" where
  "key_intersects k b e = (e > fst k \<and> b < snd k)"

section \<open>The centre of a list of intervals\<close>

text \<open>
  \<open>get_center\<close>: all begin and end coordinates, made unique and sorted, then the floor of
  their median. \<open>np.median\<close> of an odd number of values is the middle one, of an even
  number the mean of the two middle ones. The constructor calls \<open>get_center\<close> on a
  non-empty list only, where every index below is in range.
\<close>

definition median :: "rat list \<Rightarrow> rat" where
  "median xs =
     (let n = length xs in
      if odd n then xs ! (n div 2)
      else (xs ! (n div 2 - 1) + xs ! (n div 2)) / 2)"

text \<open>
  numpy takes the median in 64-bit floating point, and the centre it returns is a 64-bit
  float, so that the constructor compares every coordinate with the centre in floating
  point too. For coordinates that are integers of magnitude at most \<open>2 ^ 52\<close> none of these
  steps rounds: the coordinates, the sum of two of them and half that sum are all
  represented exactly. The model covers these lists. On any other list rounding, which is
  not modelled, can decide the centre and the comparisons, and \<open>get_center\<close> gives no value.
\<close>

definition float64_exact :: "rat \<Rightarrow> bool" where
  "float64_exact v = (of_int \<lfloor>v\<rfloor> = v \<and> - (2 ^ 52) \<le> v \<and> v \<le> 2 ^ 52)"

definition in_model :: "'a Interval_scheme list \<Rightarrow> bool" where
  "in_model items = list_all (\<lambda>x. float64_exact (ibegin x) \<and> float64_exact (iend x)) items"

definition get_center :: "'a Interval_scheme list \<Rightarrow> rat option" where
  "get_center items =
     (if in_model items then
        let positions = concat (map (\<lambda>x. [ibegin x, iend x]) items);
            sorted_positions = sort (remdups positions)
        in Some (of_int \<lfloor>median sorted_positions\<rfloor>)
      else None)"

section \<open>Nodes\<close>

text \<open>
  The exceptions of the program. \<open>NotModelled\<close> is none of them: it is what the model of
  the constructor gives for a list on which \<open>get_center\<close> has no value, and it says nothing
  about the program.
\<close>

datatype error =
  RecursionError | AttributeError | ValueError | StopIteration | IndexError | NotModelled

text \<open>
  An \<open>IntervalNode\<close> object: the ordered dictionary \<open>intervals\<close> (keys in iteration order,
  each with its list of items), the attribute \<open>_center\<close> (\<open>None\<close> when the constructor
  returned before assigning it), and the children \<open>left\<close> and \<open>right\<close>. The \<open>parent\<close>
  reference is not a field here: a node reached from a root is handled together with the
  chain of its ancestors (see the iterator below).
\<close>

datatype 'a IntervalNode =
  IntervalNode
    (intervals: "((rat \<times> rat) \<times> 'a Interval_scheme list) list")
    (center: "rat option")
    (left: "'a IntervalNode option")
    (right: "'a IntervalNode option")

text \<open>
  The loop of the constructor that sorts every interval into \<open>left\<close>, \<open>right\<close> or \<open>inner\<close>;
  each list keeps the order of the input.
\<close>

definition left_part :: "rat \<Rightarrow> 'a Interval_scheme list \<Rightarrow> 'a Interval_scheme list" where
  "left_part c xs = filter (\<lambda>x. iend x < c) xs"

definition right_part :: "rat \<Rightarrow> 'a Interval_scheme list \<Rightarrow> 'a Interval_scheme list" where
  "right_part c xs = filter (\<lambda>x. \<not> iend x < c \<and> ibegin x \<ge> c) xs"

definition inner_part :: "rat \<Rightarrow> 'a Interval_scheme list \<Rightarrow> 'a Interval_scheme list" where
  "inner_part c xs = filter (\<lambda>x. \<not> iend x < c \<and> \<not> ibegin x \<ge> c) xs"

text \<open>
  \<open>inner\<close> is a \<open>defaultdict(list)\<close> keyed by bounds; the node's dictionary takes its keys
  in sorted order (\<open>begin\<close> first, then \<open>end\<close>) and copies each key's list.
\<close>

definition own_map ::
  "'a Interval_scheme list \<Rightarrow> ((rat \<times> rat) \<times> 'a Interval_scheme list) list" where
  "own_map inner =
     map (\<lambda>k. (k, filter (\<lambda>x. bounds x = k) inner)) (sort (remdups (map bounds inner)))"

text \<open>
  The constructor. It recurses, and nothing in it bounds the recursion, so the model takes
  the number of stack frames the interpreter still allows: with none left the call raises
  \<open>RecursionError\<close>, as Python does. For a non-empty list that \<open>get_center\<close> does not
  cover, the model stops with \<open>NotModelled\<close>; in every other call the centre and each
  comparison with it are exact, in the program as in the model.
\<close>

fun IntervalNode_init :: "nat \<Rightarrow> 'a Interval_scheme list \<Rightarrow> error + 'a IntervalNode" where
  "IntervalNode_init 0 xs = Inl RecursionError"
| "IntervalNode_init (Suc d) xs =
     (if length xs = 0 then Inr (IntervalNode [] None None None)
      else
        case get_center xs of
          None \<Rightarrow> Inl NotModelled
        | Some c \<Rightarrow>
            let l = left_part c xs;
                r = right_part c xs;
                own = own_map (inner_part c xs)
            in case (if l \<noteq> [] then map_sum id Some (IntervalNode_init d l) else Inr None) of
                 Inl e \<Rightarrow> Inl e
               | Inr lt \<Rightarrow>
                   (case (if r \<noteq> [] then map_sum id Some (IntervalNode_init d r)
                          else Inr None) of
                      Inl e \<Rightarrow> Inl e
                    | Inr rt \<Rightarrow> Inr (IntervalNode own (Some c) lt rt)))"

text \<open>
  What the constructor does for a bucket: \<open>if left: self.left = IntervalNode(left, ...)\<close>,
  the child staying \<open>None\<close> for an empty bucket.
\<close>

definition child_init ::
  "nat \<Rightarrow> 'a Interval_scheme list \<Rightarrow> error + 'a IntervalNode option" where
  "child_init d ys = (if ys \<noteq> [] then map_sum id Some (IntervalNode_init d ys) else Inr None)"

text \<open>
  The truth value of a node reference: \<open>None\<close> is false, and a node is true when
  \<open>__len__\<close>, the number of keys of its own dictionary, is not zero.
\<close>

fun node_bool :: "'a IntervalNode option \<Rightarrow> bool" where
  "node_bool None = False"
| "node_bool (Some n) = (intervals n \<noteq> [])"

text \<open>The scan of a node's own dictionary in \<open>search\<close>, with its \<open>break\<close>.\<close>

fun scan_search ::
  "((rat \<times> rat) \<times> 'a Interval_scheme list) list \<Rightarrow> rat \<Rightarrow> 'a Interval_scheme list" where
  "scan_search [] p = []"
| "scan_search ((k, items) # rest) p =
     (if key_contains k p then items @ scan_search rest p
      else if fst k > p then []
      else scan_search rest p)"

text \<open>The scan in \<open>get_overlaps\<close>.\<close>

fun scan_overlaps ::
  "((rat \<times> rat) \<times> 'a Interval_scheme list) list \<Rightarrow> rat \<Rightarrow> rat \<Rightarrow> 'a Interval_scheme list" where
  "scan_overlaps [] b e = []"
| "scan_overlaps ((k, items) # rest) b e =
     (if key_intersects k b e then items @ scan_overlaps rest b e
      else if fst k \<ge> e then []
      else scan_overlaps rest b e)"

text \<open>
  \<open>IntervalNode.search\<close>. The position is a number by its type, so the \<open>ValueError\<close> of the
  first line cannot arise. Reading \<open>self._center\<close> on a node that never assigned it raises
  \<open>AttributeError\<close>.
\<close>

fun search :: "'a IntervalNode \<Rightarrow> rat \<Rightarrow> error + 'a Interval_scheme list" where
  "search (IntervalNode ivs co lt rt) position =
     (let results = scan_search ivs position in
      case co of
        None \<Rightarrow> Inl AttributeError
      | Some c \<Rightarrow>
          if position < c \<and> node_bool lt then
            (case lt of
               None \<Rightarrow> Inr results
             | Some lc \<Rightarrow> map_sum id (\<lambda>items. results @ items) (search lc position))
          else if position \<ge> c \<and> node_bool rt then
            (case rt of
               None \<Rightarrow> Inr results
             | Some rc \<Rightarrow> map_sum id (\<lambda>items. results @ items) (search rc position))
          else Inr results)"

text \<open>\<open>IntervalNode.get_overlaps\<close>: both children may be visited, the left one first.\<close>

fun get_overlaps :: "'a IntervalNode \<Rightarrow> rat \<Rightarrow> rat \<Rightarrow> error + 'a Interval_scheme list" where
  "get_overlaps (IntervalNode ivs co lt rt) b e =
     (let results = scan_overlaps ivs b e in
      case co of
        None \<Rightarrow> Inl AttributeError
      | Some c \<Rightarrow>
          (case (if b \<le> c \<and> node_bool lt then
                   (case lt of
                      None \<Rightarrow> Inr results
                    | Some lc \<Rightarrow> map_sum id (\<lambda>items. results @ items) (get_overlaps lc b e))
                 else Inr results) of
             Inl err \<Rightarrow> Inl err
           | Inr results1 \<Rightarrow>
               if e > c \<and> node_bool rt then
                 (case rt of
                    None \<Rightarrow> Inr results1
                  | Some rc \<Rightarrow> map_sum id (\<lambda>items. results1 @ items) (get_overlaps rc b e))
               else Inr results1))"

section \<open>The tree\<close>

text \<open>
  An \<open>IntervalTree\<close> object: the root node \<open>_head\<close>, the backing list \<open>_intervals\<close>, the
  flag \<open>_in_sync\<close> and the cached \<open>_size\<close>. The constructor, \<open>build\<close>, \<open>insert\<close>,
  \<open>search\<close> and \<open>get_overlaps\<close> are the same in \<open>_itree.py\<close> and \<open>_tree.py\<close>. The latter
  takes its node class from a module \<open>_node\<close> that is not among the sources; the node class
  of \<open>_itree.py\<close> stands for it.
\<close>

record 'a IntervalTree =
  tree_head :: "'a IntervalNode"
  tree_intervals :: "'a Interval_scheme list"
  tree_in_sync :: bool
  tree_size :: nat

definition IntervalTree_init :: "nat \<Rightarrow> 'a Interval_scheme list \<Rightarrow> error + 'a IntervalTree" where
  "IntervalTree_init d xs =
     map_sum id
       (\<lambda>h. \<lparr>tree_head = h, tree_intervals = xs, tree_in_sync = True, tree_size = length xs\<rparr>)
       (IntervalNode_init d xs)"

text \<open>\<open>build\<close>: when the constructor of the new root raises, no attribute has been assigned.\<close>

definition build :: "nat \<Rightarrow> 'a IntervalTree \<Rightarrow> error + 'a IntervalTree" where
  "build d t =
     (if \<not> tree_in_sync t then
        map_sum id
          (\<lambda>h. t\<lparr>tree_head := h, tree_in_sync := True, tree_size := length (tree_intervals t)\<rparr>)
          (IntervalNode_init d (tree_intervals t))
      else Inr t)"

definition tree_insert :: "'a Interval_scheme \<Rightarrow> 'a IntervalTree \<Rightarrow> 'a IntervalTree" where
  "tree_insert x t = t\<lparr>tree_intervals := tree_intervals t @ [x], tree_in_sync := False\<rparr>"

text \<open>A query returns its result, or the exception it raised, and the tree as it left it.\<close>

definition tree_search ::
  "nat \<Rightarrow> 'a IntervalTree \<Rightarrow> rat \<Rightarrow> (error + 'a Interval_scheme list) \<times> 'a IntervalTree" where
  "tree_search d t position =
     (case build d t of
        Inl err \<Rightarrow> (Inl err, t)
      | Inr t' \<Rightarrow> (search (tree_head t') position, t'))"

definition tree_get_overlaps ::
  "nat \<Rightarrow> 'a IntervalTree \<Rightarrow> rat \<Rightarrow> rat \<Rightarrow> (error + 'a Interval_scheme list) \<times> 'a IntervalTree" where
  "tree_get_overlaps d t b e =
     (case build d t of
        Inl err \<Rightarrow> (Inl err, t)
      | Inr t' \<Rightarrow> (get_overlaps (tree_head t') b e, t'))"

section \<open>Fuzzy queries\<close>

text \<open>
  Both versions of \<open>fuzzy_query\<close> call \<open>get_boundary_margin\<close>, which lives in a module that
  is not among the sources. They take it as the parameter \<open>mg\<close>. The guard
  \<open>0 < coverage > 1\<close> is Python's chained comparison: \<open>0 < coverage and coverage > 1\<close>.
\<close>

text \<open>\<open>fuzzy_query\<close> of \<open>_itree.py\<close>.\<close>

definition itree_fuzzy_query ::
  "(rat \<Rightarrow> rat \<Rightarrow> rat \<Rightarrow> rat) \<Rightarrow> nat \<Rightarrow> 'a IntervalTree \<Rightarrow> rat \<Rightarrow> rat \<Rightarrow> rat
     \<Rightarrow> (error + 'a Interval_scheme list) \<times> 'a IntervalTree" where
  "itree_fuzzy_query mg d t b e coverage =
     (if 0 < coverage \<and> coverage > 1 then (Inl ValueError, t)
      else
        case build d t of
          Inl err \<Rightarrow> (Inl err, t)
        | Inr t' \<Rightarrow>
            let margin = mg b e coverage;
                dist_begin = b - margin; dist_end = e + margin;
                prox_begin = b + margin; prox_end = e - margin;
                (res, t'') = tree_get_overlaps d t' dist_begin dist_end
            in (map_sum id (filter (\<lambda>i. ibegin i \<le> prox_begin \<and> iend i \<ge> prox_end)) res, t''))"

text \<open>\<open>fuzzy_query\<close> of \<open>_tree.py\<close>: it queries the plain range and filters on both sides.\<close>

definition tree_fuzzy_query ::
  "(rat \<Rightarrow> rat \<Rightarrow> rat \<Rightarrow> rat) \<Rightarrow> nat \<Rightarrow> 'a IntervalTree \<Rightarrow> rat \<Rightarrow> rat \<Rightarrow> rat
     \<Rightarrow> (error + 'a Interval_scheme list) \<times> 'a IntervalTree" where
  "tree_fuzzy_query mg d t b e coverage =
     (if 0 < coverage \<and> coverage > 1 then (Inl ValueError, t)
      else
        case build d t of
          Inl err \<Rightarrow> (Inl err, t)
        | Inr t' \<Rightarrow>
            let margin = mg b e coverage;
                dist_begin = b - margin; dist_end = e + margin;
                prox_begin = b + margin; prox_end = e - margin;
                (res, t'') = tree_get_overlaps d t' b e
            in (map_sum id
                  (filter (\<lambda>i. dist_begin \<le> ibegin i \<and> ibegin i \<le> prox_begin
                               \<and> dist_end \<ge> iend i \<and> iend i \<ge> prox_end)) res, t''))"

text \<open>
  Modelled from the spec: \<open>get_boundary_margin\<close> is missing from the sources. The spec asks
  for a margin that does not grow with the coverage and is 0 at coverage 1; the tests of
  \<open>fuzzy_query\<close> fix it on the range from 0 to 100 (1 at coverage 0.98, 2.5 at 0.95). This
  is the function with those values; it is used for concrete trees only.
\<close>

definition get_boundary_margin :: "rat \<Rightarrow> rat \<Rightarrow> rat \<Rightarrow> rat" where
  "get_boundary_margin b e coverage = (e - b) * (1 - coverage) / 2"

section \<open>Iterating the tree of \<open>_itree.py\<close>\<close>

text \<open>
  \<open>__iter__\<close> returns the tree itself and \<open>__next__\<close> is \<open>pass\<close>: it returns Python's \<open>None\<close>
  and raises nothing. The value returned is \<open>None\<close> or an interval.
\<close>

definition itree_iter :: "'a IntervalTree \<Rightarrow> 'a IntervalTree" where
  "itree_iter t = t"

definition itree_next ::
  "'a IntervalTree \<Rightarrow> (error + 'a Interval_scheme option) \<times> 'a IntervalTree" where
  "itree_next t = (Inr None, t)"

text \<open>
  A consumer that asks for at most \<open>n\<close> values and stops at the first exception: the values
  it got, the exception if there was one, and the iterator as it was left.
\<close>

fun itree_consume ::
  "nat \<Rightarrow> 'a IntervalTree
     \<Rightarrow> 'a Interval_scheme option list \<times> error option \<times> 'a IntervalTree" where
  "itree_consume 0 t = ([], None, t)"
| "itree_consume (Suc n) t =
     (case itree_next t of
        (Inl err, t') \<Rightarrow> ([], Some err, t')
      | (Inr v, t') \<Rightarrow>
          (case itree_consume n t' of (vs, r, t'') \<Rightarrow> (v # vs, r, t'')))"

section \<open>The forward iterator of \<open>_tree.py\<close>\<close>

text \<open>
  The iterator follows \<open>left\<close>, \<open>right\<close> and \<open>parent\<close> references. A reference to a node
  of a built tree is the node together with its ancestors, the parent first; the root has
  no ancestors, its \<open>parent\<close> is \<open>None\<close>.
\<close>

type_synonym 'a node_ref = "'a IntervalNode \<times> 'a IntervalNode list"

text \<open>\<open>minimum\<close>: \<open>while node.left: node = node.left\<close>.\<close>

fun minimum :: "'a IntervalNode \<Rightarrow> 'a IntervalNode list \<Rightarrow> 'a node_ref" where
  "minimum (IntervalNode ivs co lt rt) ps =
     (case lt of
        None \<Rightarrow> (IntervalNode ivs co lt rt, ps)
      | Some lc \<Rightarrow>
          if intervals lc \<noteq> [] then minimum lc (IntervalNode ivs co lt rt # ps)
          else (IntervalNode ivs co lt rt, ps))"

text \<open>
  \<open>IntervalNode.__eq__\<close> compares the dictionaries, then the left children, then the right
  children, with \<open>and\<close>. Dictionaries are equal when they have the same keys in the same
  order and equal lists, intervals being equal when their bounds are. Comparing a node with
  \<open>None\<close>, either way round, ends in \<open>IntervalNode.__eq__\<close> reading \<open>intervals\<close> of \<open>None\<close>.
\<close>

definition dict_view ::
  "((rat \<times> rat) \<times> 'a Interval_scheme list) list \<Rightarrow> ((rat \<times> rat) \<times> (rat \<times> rat) list) list" where
  "dict_view ivs = map (\<lambda>(k, items). (k, map bounds items)) ivs"

fun node_eq :: "'a IntervalNode \<Rightarrow> 'a IntervalNode \<Rightarrow> error + bool" where
  "node_eq (IntervalNode ia ca la ra) other =
     (if dict_view ia \<noteq> dict_view (intervals other) then Inr False
      else
        case (case la of
                None \<Rightarrow> (case left other of None \<Rightarrow> Inr True | Some y \<Rightarrow> Inl AttributeError)
              | Some x \<Rightarrow> (case left other of None \<Rightarrow> Inl AttributeError | Some y \<Rightarrow> node_eq x y)) of
          Inl err \<Rightarrow> Inl err
        | Inr False \<Rightarrow> Inr False
        | Inr True \<Rightarrow>
            (case ra of
               None \<Rightarrow> (case right other of None \<Rightarrow> Inr True | Some y \<Rightarrow> Inl AttributeError)
             | Some x \<Rightarrow> (case right other of None \<Rightarrow> Inl AttributeError | Some y \<Rightarrow> node_eq x y)))"

text \<open>
  The loop of \<open>successor\<close>: \<open>while y and node == y.right\<close>, with \<open>y\<close> the head of the
  ancestors.
\<close>

fun climb :: "'a IntervalNode \<Rightarrow> 'a IntervalNode list \<Rightarrow> error + 'a node_ref option" where
  "climb n [] = Inr None"
| "climb n (y # ps) =
     (if intervals y = [] then Inr (Some (y, ps))
      else
        case (case right y of None \<Rightarrow> Inl AttributeError | Some r \<Rightarrow> node_eq n r) of
          Inl err \<Rightarrow> Inl err
        | Inr True \<Rightarrow> climb y ps
        | Inr False \<Rightarrow> Inr (Some (y, ps)))"

fun successor :: "'a node_ref option \<Rightarrow> error + 'a node_ref option" where
  "successor None = Inl AttributeError"
| "successor (Some (n, ps)) =
     (case right n of
        None \<Rightarrow> climb n ps
      | Some r \<Rightarrow> if intervals r \<noteq> [] then Inr (Some (minimum r (n # ps))) else climb n ps)"

fun node_to_queue :: "'a node_ref option \<Rightarrow> 'a Interval_scheme list" where
  "node_to_queue None = []"
| "node_to_queue (Some (n, ps)) =
     (if intervals n \<noteq> [] then concat (map snd (intervals n)) else [])"

text \<open>
  The iterator object. \<open>queue\<close> is \<open>None\<close> until the first call initialises it; it is not
  read before, and the empty list stands for it.
\<close>

record 'a IntervalTreeIterator =
  initialized :: bool
  root_it :: "'a IntervalNode"
  node :: "'a node_ref option"
  queue :: "'a Interval_scheme list"

definition IntervalTreeIterator_init :: "'a IntervalNode \<Rightarrow> 'a IntervalTreeIterator" where
  "IntervalTreeIterator_init r = \<lparr>initialized = False, root_it = r, node = None, queue = []\<rparr>"

definition has_next ::
  "'a IntervalTreeIterator \<Rightarrow> (error + bool) \<times> 'a IntervalTreeIterator" where
  "has_next it =
     (if \<not> initialized it \<and> intervals (root_it it) = [] then (Inr False, it)
      else
        let it1 =
              (if \<not> initialized it then
                 it\<lparr>node := Some (minimum (root_it it) []),
                    queue := node_to_queue (Some (minimum (root_it it) [])),
                    initialized := True\<rparr>
               else it)
        in if queue it1 \<noteq> [] then (Inr True, it1)
           else
             case successor (node it1) of
               Inl err \<Rightarrow> (Inl err, it1)
             | Inr nd \<Rightarrow>
                 (Inr (length (node_to_queue nd) \<noteq> 0),
                  it1\<lparr>node := nd, queue := node_to_queue nd\<rparr>))"

text \<open>\<open>__next__\<close>; \<open>popleft\<close> of an empty deque raises \<open>IndexError\<close>.\<close>

definition IntervalTreeIterator_next ::
  "'a IntervalTreeIterator \<Rightarrow> (error + 'a Interval_scheme) \<times> 'a IntervalTreeIterator" where
  "IntervalTreeIterator_next it =
     (case has_next it of
        (Inl err, it') \<Rightarrow> (Inl err, it')
      | (Inr False, it') \<Rightarrow> (Inl StopIteration, it')
      | (Inr True, it') \<Rightarrow>
          (case queue it' of
             [] \<Rightarrow> (Inl IndexError, it')
           | x # q \<Rightarrow> (Inr x, it'\<lparr>queue := q\<rparr>)))"

text \<open>\<open>IntervalTree.__iter__\<close> of \<open>_tree.py\<close>.\<close>

definition tree_iter ::
  "nat \<Rightarrow> 'a IntervalTree \<Rightarrow> (error + 'a IntervalTreeIterator) \<times> 'a IntervalTree" where
  "tree_iter d t =
     (case build d t of
        Inl err \<Rightarrow> (Inl err, t)
      | Inr t' \<Rightarrow> (Inr (IntervalTreeIterator_init (tree_head t')), t'))"

text \<open>
  A consumer that asks for at most \<open>n\<close> values and stops at the first exception; a loop
  over the iterator ends with \<open>StopIteration\<close>.
\<close>

fun consume :: "nat \<Rightarrow> 'a IntervalTreeIterator \<Rightarrow> 'a Interval_scheme list \<times> error option" where
  "consume 0 it = ([], None)"
| "consume (Suc n) it =
     (case IntervalTreeIterator_next it of
        (Inl err, it') \<Rightarrow> ([], Some err)
      | (Inr x, it') \<Rightarrow> (case consume n it' of (xs, r) \<Rightarrow> (x # xs, r)))"



section \<open>Concrete intervals and trees\<close>

text \<open>\<open>SimpleInterval\<close> of the tests: an interval with no payload.\<close>

definition SimpleInterval :: "rat \<Rightarrow> rat \<Rightarrow> Interval" where
  "SimpleInterval b e = \<lparr>ibegin = b, iend = e\<rparr>"

text \<open>The eight intervals of the integration tests in \<open>test_itree.py\<close>, and the root built from them.\<close>

definition scenario :: "Interval list" where
  "scenario =
     [SimpleInterval 0 40, SimpleInterval (- 20) (- 10), SimpleInterval 0 10,
      SimpleInterval 5 15, SimpleInterval 10 20, SimpleInterval 15 25,
      SimpleInterval 20 30, SimpleInterval 25 35]"

definition scenario_head :: "unit IntervalNode" where
  "scenario_head =
     IntervalNode
       [((0, 40), [SimpleInterval 0 40]), ((5, 15), [SimpleInterval 5 15]),
        ((10, 20), [SimpleInterval 10 20])]
       (Some 15)
       (Some (IntervalNode [] (Some (- 5))
          (Some (IntervalNode [((- 20, - 10), [SimpleInterval (- 20) (- 10)])]
                   (Some (- 15)) None None))
          (Some (IntervalNode [((0, 10), [SimpleInterval 0 10])] (Some 5) None None))))
       (Some (IntervalNode
          [((15, 25), [SimpleInterval 15 25]), ((20, 30), [SimpleInterval 20 30])]
          (Some 25) None
          (Some (IntervalNode [((25, 35), [SimpleInterval 25 35])] (Some 30) None None))))"

definition scenario_tree :: "unit IntervalTree" where
  "scenario_tree =
     \<lparr>tree_head = scenario_head, tree_intervals = scenario, tree_in_sync = True, tree_size = 8\<rparr>"

text \<open>The same intervals without \<open>(0, 10)\<close>, which is inserted afterwards.\<close>

definition before_insert :: "Interval list" where
  "before_insert =
     [SimpleInterval 0 40, SimpleInterval (- 20) (- 10),
      SimpleInterval 5 15, SimpleInterval 10 20, SimpleInterval 15 25,
      SimpleInterval 20 30, SimpleInterval 25 35]"

definition before_insert_tree :: "unit IntervalTree" where
  "before_insert_tree =
     \<lparr>tree_head =
        IntervalNode
          [((0, 40), [SimpleInterval 0 40]), ((5, 15), [SimpleInterval 5 15]),
           ((10, 20), [SimpleInterval 10 20])]
          (Some 15)
          (Some (IntervalNode [((- 20, - 10), [SimpleInterval (- 20) (- 10)])]
                   (Some (- 15)) None None))
          (Some (IntervalNode
             [((15, 25), [SimpleInterval 15 25]), ((20, 30), [SimpleInterval 20 30])]
             (Some 25) None
             (Some (IntervalNode [((25, 35), [SimpleInterval 25 35])] (Some 30) None None)))),
      tree_intervals = before_insert, tree_in_sync = True, tree_size = 7\<rparr>"

definition after_insert_tree :: "unit IntervalTree" where
  "after_insert_tree =
     \<lparr>tree_head = scenario_head, tree_intervals = before_insert @ [SimpleInterval 0 10],
      tree_in_sync = True, tree_size = 8\<rparr>"

text \<open>Three intervals whose root interval begins before the one in its left child.\<close>

definition nested :: "Interval list" where
  "nested = [SimpleInterval 10 20, SimpleInterval 0 100, SimpleInterval 80 90]"

definition nested_head :: "unit IntervalNode" where
  "nested_head =
     IntervalNode [((0, 100), [SimpleInterval 0 100])] (Some 50)
       (Some (IntervalNode [((10, 20), [SimpleInterval 10 20])] (Some 15) None None))
       (Some (IntervalNode [((80, 90), [SimpleInterval 80 90])] (Some 85) None None))"

definition nested_tree :: "unit IntervalTree" where
  "nested_tree =
     \<lparr>tree_head = nested_head, tree_intervals = nested, tree_in_sync = True, tree_size = 3\<rparr>"

text \<open>One wide interval.\<close>

definition wide_tree :: "unit IntervalTree" where
  "wide_tree =
     \<lparr>tree_head =
        IntervalNode [((- 1000, 1000), [SimpleInterval (- 1000) 1000])] (Some 0) None None,
      tree_intervals = [SimpleInterval (- 1000) 1000], tree_in_sync = True, tree_size = 1\<rparr>"

text \<open>The tree built from no intervals.\<close>

definition empty_tree :: "'a IntervalTree" where
  "empty_tree =
     \<lparr>tree_head = IntervalNode [] None None None, tree_intervals = [],
      tree_in_sync = True, tree_size = 0\<rparr>"

section \<open>Auxiliary facts\<close>

lemma map_sum_eq_Inl: "map_sum f g x = Inl e \<longleftrightarrow> (\<exists>a. x = Inl a \<and> f a = e)"
  by (cases x) auto

lemma map_sum_eq_Inr: "map_sum f g x = Inr v \<longleftrightarrow> (\<exists>a. x = Inr a \<and> g a = v)"
  by (cases x) auto

lemma child_init_Inr:
  "child_init d ys = Inr ch \<longleftrightarrow>
     (ys = [] \<and> ch = None) \<or> (ys \<noteq> [] \<and> (\<exists>n. IntervalNode_init d ys = Inr n \<and> ch = Some n))"
  by (auto simp: child_init_def map_sum_eq_Inr)

lemma child_init_Inl:
  "child_init d ys = Inl err \<longleftrightarrow> ys \<noteq> [] \<and> IntervalNode_init d ys = Inl err"
  by (auto simp: child_init_def map_sum_eq_Inl)

section \<open>Construction\<close>

subsection \<open>One level of the constructor\<close>

lemma init_Suc:
  "xs \<noteq> [] \<Longrightarrow>
   IntervalNode_init (Suc d) xs =
     (case get_center xs of
        None \<Rightarrow> Inl NotModelled
      | Some c \<Rightarrow>
          (case child_init d (left_part c xs) of
             Inl e \<Rightarrow> Inl e
           | Inr l \<Rightarrow>
               (case child_init d (right_part c xs) of
                  Inl e \<Rightarrow> Inl e
                | Inr r \<Rightarrow> Inr (IntervalNode (own_map (inner_part c xs)) (Some c) l r))))"
  unfolding child_init_def by (simp add: Let_def split: option.splits)

lemma init_Suc_cases:
  assumes "IntervalNode_init (Suc d) xs = Inr t" and "xs \<noteq> []"
  obtains c l r where
    "get_center xs = Some c"
    "child_init d (left_part c xs) = Inr l"
    "child_init d (right_part c xs) = Inr r"
    "t = IntervalNode (own_map (inner_part c xs)) (Some c) l r"
  using assms unfolding init_Suc[OF assms(2)]
  by (auto split: option.splits sum.splits)

lemma init_Suc_result:
  assumes "xs \<noteq> []"
    and "get_center xs = Some c"
    and "child_init d (left_part c xs) = Inr l"
    and "child_init d (right_part c xs) = Inr r"
  shows "IntervalNode_init (Suc d) xs
         = Inr (IntervalNode (own_map (inner_part c xs)) (Some c) l r)"
  unfolding init_Suc[OF assms(1)] using assms(2-4) by simp

text \<open>The constructor raises nothing but \<open>RecursionError\<close>, \<open>get_overlaps\<close> of a node nothing
  but \<open>AttributeError\<close>.\<close>

lemma init_error:
  "IntervalNode_init d xs = Inl err \<Longrightarrow> err = RecursionError \<or> err = NotModelled"
proof (induction d arbitrary: xs)
  case 0
  then show ?case by simp
next
  case (Suc d)
  show ?case
  proof (cases "xs = []")
    case True
    with Suc.prems show ?thesis by simp
  next
    case False
    from Suc.prems Suc.IH show ?thesis
      unfolding init_Suc[OF False]
      by (auto simp: child_init_Inl split: option.splits sum.splits)
  qed
qed

lemma get_overlaps_error: "get_overlaps n b e = Inl err \<Longrightarrow> err = AttributeError"
  by (induction n b e rule: get_overlaps.induct)
     (auto simp: Let_def map_sum_eq_Inl split: if_splits sum.splits option.splits)

lemma build_error: "build d t = Inl err \<Longrightarrow> err = RecursionError \<or> err = NotModelled"
  by (auto simp: build_def map_sum_eq_Inl split: if_splits dest: init_error)

lemma build_in_sync: "tree_in_sync t \<Longrightarrow> build d t = Inr t"
  by (simp add: build_def)

lemma build_result_in_sync: "build d t = Inr t' \<Longrightarrow> tree_in_sync t'"
  by (auto simp: build_def map_sum_eq_Inr split: if_splits)

subsection \<open>A deeper stack changes no result\<close>

lemma child_deeper:
  assumes "\<And>t. IntervalNode_init d ys = Inr t \<Longrightarrow> IntervalNode_init (Suc d) ys = Inr t"
    and "child_init d ys = Inr ch"
  shows "child_init (Suc d) ys = Inr ch"
  using assms unfolding child_init_Inr by blast

lemma init_deeper:
  "IntervalNode_init d xs = Inr t \<Longrightarrow> IntervalNode_init (Suc d) xs = Inr t"
proof (induction d arbitrary: xs t)
  case 0
  then show ?case by simp
next
  case (Suc d)
  show ?case
  proof (cases "xs = []")
    case True
    with Suc.prems show ?thesis by simp
  next
    case False
    from Suc.prems False obtain c l r where
      c: "get_center xs = Some c" and
      l: "child_init d (left_part c xs) = Inr l" and
      r: "child_init d (right_part c xs) = Inr r" and
      t: "t = IntervalNode (own_map (inner_part c xs)) (Some c) l r"
      by (rule init_Suc_cases)
    note l' = child_deeper[OF Suc.IH l] and r' = child_deeper[OF Suc.IH r]
    show ?thesis
      unfolding t using False c l' r' by (rule init_Suc_result)
  qed
qed

lemma init_deeper_add:
  "IntervalNode_init d xs = Inr t \<Longrightarrow> IntervalNode_init (d + k) xs = Inr t"
proof (induction k)
  case 0
  then show ?case by simp
next
  case (Suc k)
  then have "IntervalNode_init (Suc (d + k)) xs = Inr t"
    by (intro init_deeper)
  then show ?case by (simp only: add_Suc_right)
qed

subsection \<open>Termination\<close>

lemma get_center_unit:
  assumes "- (2 ^ 52) \<le> n" and "n < 2 ^ 52"
  shows "get_center [\<lparr>ibegin = of_int n, iend = of_int n + 1, \<dots> = m\<rparr>] = Some (of_int n)"
proof -
  have f: "\<lfloor>(rat_of_int n + (rat_of_int n + 1)) / 2\<rfloor> = n"
    by (rule floor_unique) (simp_all add: field_simps)
  have "rat_of_int n + 1 = rat_of_int (n + 1)"
    by simp
  moreover have "float64_exact (rat_of_int n)" and "float64_exact (rat_of_int (n + 1))"
    using assms by (simp_all add: float64_exact_def)
  ultimately have "in_model [\<lparr>ibegin = of_int n, iend = of_int n + 1, \<dots> = m\<rparr>]"
    by (simp add: in_model_def)
  with f show ?thesis
    by (simp add: get_center_def median_def)
qed

text \<open>
  C1 (construction terminates on every finite list, each child being built from a strictly
  smaller list). The code does not: for a single interval from an integer \<open>n\<close> to \<open>n + 1\<close>,
  with \<open>n\<close> from \<open>- 2 ^ 52\<close> to below \<open>2 ^ 52\<close> so that no step rounds, the centre is \<open>n\<close>, the
  interval goes to the right bucket, and the right child is built from the very same
  list. Whatever recursion depth is allowed, the constructor of the node, and with it the
  constructor of the tree, ends in \<open>RecursionError\<close>.
\<close>

theorem unit_interval_never_built:
  assumes "- (2 ^ 52) \<le> n" and "n < 2 ^ 52"
  shows "IntervalNode_init d [\<lparr>ibegin = of_int n, iend = of_int n + 1, \<dots> = m\<rparr>]
           = Inl RecursionError
     \<and> IntervalTree_init d [\<lparr>ibegin = of_int n, iend = of_int n + 1, \<dots> = m\<rparr>]
           = Inl RecursionError"
proof -
  have "IntervalNode_init d [\<lparr>ibegin = of_int n, iend = of_int n + 1, \<dots> = m\<rparr>]
        = Inl RecursionError"
  proof (induction d)
    case 0
    show ?case by simp
  next
    case (Suc d)
    then show ?case
      by (simp add: get_center_unit[OF assms] left_part_def right_part_def Let_def)
  qed
  then show ?thesis
    by (simp add: IntervalTree_init_def)
qed

text \<open>The interval from 0 to 1, at every recursion depth.\<close>

theorem unit_interval_never_built_witness:
  "\<forall>d. - (2 ^ 52) \<le> (0::int) \<and> (0::int) < 2 ^ 52
       \<and> IntervalNode_init d [SimpleInterval 0 1] = Inl RecursionError
       \<and> IntervalTree_init d [SimpleInterval 0 1] = Inl RecursionError"
proof
  fix d
  have h: "- (2 ^ 52) \<le> (0::int)" "(0::int) < 2 ^ 52"
    by simp_all
  show "- (2 ^ 52) \<le> (0::int) \<and> (0::int) < 2 ^ 52
       \<and> IntervalNode_init d [SimpleInterval 0 1] = Inl RecursionError
       \<and> IntervalTree_init d [SimpleInterval 0 1] = Inl RecursionError"
    using unit_interval_never_built[OF h, of d "()"] by (simp add: SimpleInterval_def)
qed

subsection \<open>The partition\<close>









subsection \<open>Lists on which the constructor returns\<close>







subsection \<open>Partition completeness\<close>



section \<open>Queries\<close>

subsection \<open>Every interval returned is stored and passes the test\<close>

lemma scan_search_groups:
  "set (scan_search (map (\<lambda>k. (k, filter (\<lambda>x. bounds x = k) inner)) ks) p)
   \<subseteq> {x \<in> set inner. contains x p}"
  by (induction ks) (auto simp: key_contains_def contains_def bounds_def)

lemma scan_overlaps_groups:
  "set (scan_overlaps (map (\<lambda>k. (k, filter (\<lambda>x. bounds x = k) inner)) ks) b e)
   \<subseteq> {x \<in> set inner. intersects x b e}"
  by (induction ks) (auto simp: key_intersects_def intersects_def bounds_def)

lemma search_sound:
  "IntervalNode_init d xs = Inr t \<Longrightarrow> search t p = Inr rs
   \<Longrightarrow> set rs \<subseteq> {x \<in> set xs. contains x p}"
proof (induction d arbitrary: xs t rs)
  case 0
  then show ?case by simp
next
  case (Suc d)
  show ?case
  proof (cases "xs = []")
    case True
    with Suc.prems show ?thesis by auto
  next
    case False
    from Suc.prems(1) False obtain c l r where
      c: "get_center xs = Some c" and
      l: "child_init d (left_part c xs) = Inr l" and
      r: "child_init d (right_part c xs) = Inr r" and
      t: "t = IntervalNode (own_map (inner_part c xs)) (Some c) l r"
      by (rule init_Suc_cases)
    have own: "set (scan_search (own_map (inner_part c xs)) p) \<subseteq> {x \<in> set xs. contains x p}"
      using scan_search_groups[of "inner_part c xs" _ p]
      by (fastforce simp: own_map_def inner_part_def)
    have L: "set rs' \<subseteq> {x \<in> set xs. contains x p}"
      if "l = Some n" "search n p = Inr rs'" for n rs'
    proof -
      from l that(1) have "IntervalNode_init d (left_part c xs) = Inr n"
        by (auto simp: child_init_Inr)
      from Suc.IH[OF this that(2)] show ?thesis
        by (auto simp: left_part_def)
    qed
    have R: "set rs' \<subseteq> {x \<in> set xs. contains x p}"
      if "r = Some n" "search n p = Inr rs'" for n rs'
    proof -
      from r that(1) have "IntervalNode_init d (right_part c xs) = Inr n"
        by (auto simp: child_init_Inr)
      from Suc.IH[OF this that(2)] show ?thesis
        by (auto simp: right_part_def)
    qed
    from Suc.prems(2) own L R show ?thesis
      unfolding t
      by (auto simp: Let_def map_sum_eq_Inr split: if_splits option.splits; blast)
  qed
qed

lemma get_overlaps_sound:
  "IntervalNode_init d xs = Inr t \<Longrightarrow> get_overlaps t b e = Inr rs
   \<Longrightarrow> set rs \<subseteq> {x \<in> set xs. intersects x b e}"
proof (induction d arbitrary: xs t rs)
  case 0
  then show ?case by simp
next
  case (Suc d)
  show ?case
  proof (cases "xs = []")
    case True
    with Suc.prems show ?thesis by auto
  next
    case False
    from Suc.prems(1) False obtain c l r where
      c: "get_center xs = Some c" and
      l: "child_init d (left_part c xs) = Inr l" and
      r: "child_init d (right_part c xs) = Inr r" and
      t: "t = IntervalNode (own_map (inner_part c xs)) (Some c) l r"
      by (rule init_Suc_cases)
    have own: "set (scan_overlaps (own_map (inner_part c xs)) b e)
               \<subseteq> {x \<in> set xs. intersects x b e}"
      using scan_overlaps_groups[of "inner_part c xs" _ b e]
      by (fastforce simp: own_map_def inner_part_def)
    have L: "set rs' \<subseteq> {x \<in> set xs. intersects x b e}"
      if "l = Some n" "get_overlaps n b e = Inr rs'" for n rs'
    proof -
      from l that(1) have "IntervalNode_init d (left_part c xs) = Inr n"
        by (auto simp: child_init_Inr)
      from Suc.IH[OF this that(2)] show ?thesis
        by (auto simp: left_part_def)
    qed
    have R: "set rs' \<subseteq> {x \<in> set xs. intersects x b e}"
      if "r = Some n" "get_overlaps n b e = Inr rs'" for n rs'
    proof -
      from r that(1) have "IntervalNode_init d (right_part c xs) = Inr n"
        by (auto simp: child_init_Inr)
      from Suc.IH[OF this that(2)] show ?thesis
        by (auto simp: right_part_def)
    qed
    from Suc.prems(2) own L R show ?thesis
      unfolding t
      by (auto simp: Let_def map_sum_eq_Inr split: if_splits option.splits sum.splits; blast)
  qed
qed

subsection \<open>Stored intervals that are not returned\<close>

lemma scenario_built: "IntervalNode_init (3 + d) scenario = Inr scenario_head"
proof -
  have "IntervalNode_init 3 scenario = Inr scenario_head"
    by code_simp
  then show ?thesis by (rule init_deeper_add)
qed

lemma scenario_tree_built: "IntervalTree_init (3 + d) scenario = Inr scenario_tree"
  by (simp add: IntervalTree_init_def scenario_built scenario_tree_def) (simp add: scenario_def)

text \<open>
  C2 (an interval is in \<open>search(p)\<close> exactly when it is stored and contains \<open>p\<close>). The
  code misses stored intervals: \<open>search\<close> descends into a child only when the child is
  true, and a node is true when its own dictionary is not empty. In the tree of the
  integration tests the left child of the root has an empty dictionary and two children;
  \<open>search(5)\<close> returns \<open>(0, 40)\<close> alone, though \<open>(0, 10)\<close> is stored and contains 5.
\<close>

theorem search_skips_children_of_empty_node:
  "IntervalTree_init (3 + d) scenario = Inr scenario_tree
   \<and> fst (tree_search d' scenario_tree 5) = Inr [SimpleInterval 0 40]
   \<and> SimpleInterval 0 10 \<in> set scenario
   \<and> contains (SimpleInterval 0 10) 5"
proof -
  have "search scenario_head 5 = Inr [SimpleInterval 0 40]"
    by code_simp
  then have "fst (tree_search d' scenario_tree 5) = Inr [SimpleInterval 0 40]"
    by (simp add: tree_search_def build_def scenario_tree_def)
  moreover have "SimpleInterval 0 10 \<in> set scenario"
    by (simp add: scenario_def)
  moreover have "contains (SimpleInterval 0 10) 5"
    by (simp add: contains_def SimpleInterval_def)
  ultimately show ?thesis
    using scenario_tree_built by blast
qed

text \<open>
  C3 (an interval is in \<open>get_overlaps(b, e)\<close> exactly when it is stored and \<open>e > begin\<close> and
  \<open>b < end\<close>). The code misses stored intervals for the same reason: on the tree of the
  integration tests \<open>get_overlaps(0, 5)\<close> returns \<open>(0, 40)\<close> alone, though \<open>(0, 10)\<close> is
  stored and overlaps the range.
\<close>

theorem get_overlaps_skips_children_of_empty_node:
  "IntervalTree_init (3 + d) scenario = Inr scenario_tree
   \<and> fst (tree_get_overlaps d' scenario_tree 0 5) = Inr [SimpleInterval 0 40]
   \<and> SimpleInterval 0 10 \<in> set scenario
   \<and> intersects (SimpleInterval 0 10) 0 5"
proof -
  have "get_overlaps scenario_head 0 5 = Inr [SimpleInterval 0 40]"
    by code_simp
  then have "fst (tree_get_overlaps d' scenario_tree 0 5) = Inr [SimpleInterval 0 40]"
    by (simp add: tree_get_overlaps_def build_def scenario_tree_def)
  moreover have "SimpleInterval 0 10 \<in> set scenario"
    by (simp add: scenario_def)
  moreover have "intersects (SimpleInterval 0 10) 0 5"
    by (simp add: intersects_def SimpleInterval_def)
  ultimately show ?thesis
    using scenario_tree_built by blast
qed

text \<open>
  C9 (after \<open>insert(X)\<close> every query reflects \<open>X\<close>; the query rebuilds the root from the whole
  backing list first). The rebuild happens, but the queries on the rebuilt tree miss \<open>X\<close>:
  with \<open>(0, 10)\<close> inserted into the tree of the other seven intervals, the next \<open>search(5)\<close>
  and \<open>get_overlaps(0, 5)\<close> rebuild the root from all eight and return \<open>(0, 40)\<close> alone.
\<close>

theorem inserted_interval_not_found:
  "IntervalTree_init (3 + d) before_insert = Inr before_insert_tree
   \<and> tree_search (3 + d') (tree_insert (SimpleInterval 0 10) before_insert_tree) 5
       = (Inr [SimpleInterval 0 40], after_insert_tree)
   \<and> tree_get_overlaps (3 + d') (tree_insert (SimpleInterval 0 10) before_insert_tree) 0 5
       = (Inr [SimpleInterval 0 40], after_insert_tree)
   \<and> contains (SimpleInterval 0 10) 5
   \<and> intersects (SimpleInterval 0 10) 0 5"
proof -
  have "IntervalNode_init 3 before_insert = Inr (tree_head before_insert_tree)"
    by code_simp
  then have "IntervalNode_init (3 + d) before_insert = Inr (tree_head before_insert_tree)"
    by (rule init_deeper_add)
  then have 1: "IntervalTree_init (3 + d) before_insert = Inr before_insert_tree"
    by (simp add: IntervalTree_init_def before_insert_tree_def) (simp add: before_insert_def)
  have "IntervalNode_init 3 (before_insert @ [SimpleInterval 0 10]) = Inr scenario_head"
    by code_simp
  then have "IntervalNode_init (3 + d') (before_insert @ [SimpleInterval 0 10]) = Inr scenario_head"
    by (rule init_deeper_add)
  then have b: "build (3 + d') (tree_insert (SimpleInterval 0 10) before_insert_tree)
                = Inr after_insert_tree"
    by (simp add: build_def tree_insert_def before_insert_tree_def after_insert_tree_def)
       (simp add: before_insert_def)
  have s: "search scenario_head 5 = Inr [SimpleInterval 0 40]"
    by code_simp
  have g: "get_overlaps scenario_head 0 5 = Inr [SimpleInterval 0 40]"
    by code_simp
  have 2: "tree_search (3 + d') (tree_insert (SimpleInterval 0 10) before_insert_tree) 5
       = (Inr [SimpleInterval 0 40], after_insert_tree)"
    unfolding tree_search_def b using s by (simp add: after_insert_tree_def)
  have 3: "tree_get_overlaps (3 + d') (tree_insert (SimpleInterval 0 10) before_insert_tree) 0 5
       = (Inr [SimpleInterval 0 40], after_insert_tree)"
    unfolding tree_get_overlaps_def b using g by (simp add: after_insert_tree_def)
  have 4: "contains (SimpleInterval 0 10) 5" "intersects (SimpleInterval 0 10) 0 5"
    by (simp_all add: contains_def intersects_def SimpleInterval_def)
  from 1 2 3 4 show ?thesis by blast
qed

section \<open>Queries on the empty tree\<close>

text \<open>
  C5 (on the tree built from no intervals, \<open>search\<close>, \<open>get_overlaps\<close> and \<open>fuzzy_query\<close>
  return an empty result and raise nothing). The code does not: the constructor returns
  before it assigns \<open>_center\<close>, and each query reads it. The empty tree is built, and every
  query on it raises \<open>AttributeError\<close>; \<open>fuzzy_query\<close> raises \<open>ValueError\<close> first when the
  coverage exceeds 1.
\<close>

theorem empty_tree_queries_raise:
  "IntervalTree_init (Suc d) [] = Inr empty_tree
   \<and> fst (tree_search d' empty_tree p) = Inl AttributeError
   \<and> fst (tree_get_overlaps d' empty_tree b e) = Inl AttributeError
   \<and> fst (itree_fuzzy_query mg d' empty_tree b e c)
       = (if c > 1 then Inl ValueError else Inl AttributeError)
   \<and> fst (tree_fuzzy_query mg d' empty_tree b e c)
       = (if c > 1 then Inl ValueError else Inl AttributeError)"
  by (simp add: empty_tree_def IntervalTree_init_def tree_search_def tree_get_overlaps_def
        itree_fuzzy_query_def tree_fuzzy_query_def build_def)

section \<open>Fuzzy queries\<close>

text \<open>
  C6 (\<open>fuzzy_query\<close> raises a validation error exactly when the coverage is outside the
  range from 0 to 1). The guard \<open>0 < coverage > 1\<close> only rejects a coverage above 1: at
  coverage \<open>-1/2\<close> neither version of \<open>fuzzy_query\<close> raises \<open>ValueError\<close>, on any tree and
  for any margin function.
\<close>

theorem negative_coverage_accepted:
  "fst (itree_fuzzy_query mg d t b e (- 1 / 2)) \<noteq> Inl ValueError
   \<and> fst (tree_fuzzy_query mg d t b e (- 1 / 2)) \<noteq> Inl ValueError"
  by (auto simp: itree_fuzzy_query_def tree_fuzzy_query_def tree_get_overlaps_def Let_def
        map_sum_eq_Inl
      split: sum.splits prod.splits dest: build_error get_overlaps_error)

text \<open>
  C7, as amended: for \<open>begin < end\<close>, a coverage \<open>c\<close> from 0 to 1 and \<open>m\<close> the margin,
  \<open>fuzzy_query\<close> of \<open>_itree.py\<close> returns the intervals of \<open>get_overlaps(begin - m, end + m)\<close>
  with \<open>interval.begin <= begin + m\<close> and \<open>interval.end >= end - m\<close>, in that order, while
  \<open>fuzzy_query\<close> of \<open>_tree.py\<close> returns the intervals of \<open>get_overlaps(begin, end)\<close> with
  \<open>begin - m <= interval.begin <= begin + m\<close> and \<open>end + m >= interval.end >= end - m\<close>, in
  that order. Either raises what \<open>get_overlaps\<close> raises, and leaves the tree as
  \<open>get_overlaps\<close> leaves it.
\<close>

theorem fuzzy_query_filters_overlaps:
  assumes "b < e" and "0 \<le> c" and "c \<le> 1"
  shows "itree_fuzzy_query mg d t b e c =
           (case tree_get_overlaps d t (b - mg b e c) (e + mg b e c) of
              (res, t') \<Rightarrow>
                (map_sum id
                   (filter (\<lambda>i. ibegin i \<le> b + mg b e c \<and> iend i \<ge> e - mg b e c)) res, t'))
     \<and> tree_fuzzy_query mg d t b e c =
           (case tree_get_overlaps d t b e of
              (res, t') \<Rightarrow>
                (map_sum id
                   (filter (\<lambda>i. b - mg b e c \<le> ibegin i \<and> ibegin i \<le> b + mg b e c
                                \<and> e + mg b e c \<ge> iend i \<and> iend i \<ge> e - mg b e c)) res, t'))"
proof (cases "build d t")
  case (Inl err)
  with assms(3) show ?thesis
    by (simp add: itree_fuzzy_query_def tree_fuzzy_query_def tree_get_overlaps_def)
next
  case (Inr t')
  then have "build d t' = Inr t'"
    by (intro build_in_sync build_result_in_sync)
  with Inr assms(3) show ?thesis
    by (simp add: itree_fuzzy_query_def tree_fuzzy_query_def tree_get_overlaps_def Let_def)
qed

text \<open>
  On the tree of the three nested intervals, at coverage 0.95 of the range from 0 to 100
  (margin 2.5), both versions return \<open>(0, 100)\<close>.
\<close>

theorem fuzzy_query_filters_overlaps_witness:
  "(0::rat) < 100 \<and> (0::rat) \<le> 95 / 100 \<and> (95 / 100 :: rat) \<le> 1
   \<and> itree_fuzzy_query get_boundary_margin 3 nested_tree 0 100 (95 / 100)
       = (Inr [SimpleInterval 0 100], nested_tree)
   \<and> tree_fuzzy_query get_boundary_margin 3 nested_tree 0 100 (95 / 100)
       = (Inr [SimpleInterval 0 100], nested_tree)"
proof -
  have m: "get_boundary_margin 0 100 (95 / 100) = 5 / 2"
    by (simp add: get_boundary_margin_def)
  have g1: "tree_get_overlaps 3 nested_tree (0 - 5 / 2) (100 + 5 / 2)
            = (Inr [SimpleInterval 0 100, SimpleInterval 10 20, SimpleInterval 80 90], nested_tree)"
    by code_simp
  have g2: "tree_get_overlaps 3 nested_tree 0 100
            = (Inr [SimpleInterval 0 100, SimpleInterval 10 20, SimpleInterval 80 90], nested_tree)"
    by code_simp
  have h: "(0::rat) < 100" "(0::rat) \<le> 95 / 100" "(95 / 100 :: rat) \<le> 1"
    by simp_all
  from fuzzy_query_filters_overlaps[OF h, of get_boundary_margin 3 nested_tree]
  show ?thesis
    unfolding m g1 g2 by (simp add: SimpleInterval_def)
qed

text \<open>
  The claim as stated fails for \<open>fuzzy_query\<close> of \<open>_tree.py\<close>: on the tree of the one
  interval from -1000 to 1000, at coverage 1 (margin 0) of the range from 0 to 100, it
  returns nothing, while the stated filter of \<open>get_overlaps(0 - 0, 100 + 0)\<close> keeps the
  interval.
\<close>

theorem tree_fuzzy_query_differs:
  "IntervalTree_init 1 [SimpleInterval (- 1000) 1000] = Inr wide_tree
   \<and> get_boundary_margin 0 100 1 = 0
   \<and> fst (tree_fuzzy_query get_boundary_margin 1 wide_tree 0 100 1) = Inr []
   \<and> map_sum id
        (filter (\<lambda>i. ibegin i \<le> 0 + get_boundary_margin 0 100 1
                     \<and> iend i \<ge> 100 - get_boundary_margin 0 100 1))
        (fst (tree_get_overlaps 1 wide_tree (0 - get_boundary_margin 0 100 1)
                (100 + get_boundary_margin 0 100 1)))
      = Inr [SimpleInterval (- 1000) 1000]"
  by code_simp

section \<open>Iteration\<close>

text \<open>
  C4 (forward iteration yields the stored intervals sorted by \<open>begin\<close>, then \<open>end\<close>). The
  iterator of \<open>_tree.py\<close> walks the nodes in order, left subtree, node, right subtree, but
  an interval kept at a node may begin before those of its left subtree. The tree of
  \<open>(10, 20)\<close>, \<open>(0, 100)\<close>, \<open>(80, 90)\<close> is iterated as \<open>(10, 20)\<close>, \<open>(0, 100)\<close>, \<open>(80, 90)\<close>,
  the fourth call raising \<open>StopIteration\<close>; sorted, \<open>(0, 100)\<close> comes first.
\<close>

theorem iteration_not_in_order:
  "IntervalTree_init (2 + d) nested = Inr nested_tree
   \<and> tree_iter d' nested_tree = (Inr (IntervalTreeIterator_init nested_head), nested_tree)
   \<and> consume 4 (IntervalTreeIterator_init nested_head)
       = ([SimpleInterval 10 20, SimpleInterval 0 100, SimpleInterval 80 90], Some StopIteration)
   \<and> sort_key bounds nested = [SimpleInterval 0 100, SimpleInterval 10 20, SimpleInterval 80 90]"
proof -
  have "IntervalNode_init 2 nested = Inr nested_head"
    by code_simp
  then have "IntervalNode_init (2 + d) nested = Inr nested_head"
    by (rule init_deeper_add)
  then have 1: "IntervalTree_init (2 + d) nested = Inr nested_tree"
    by (simp add: IntervalTree_init_def nested_tree_def) (simp add: nested_def)
  have 2: "tree_iter d' nested_tree = (Inr (IntervalTreeIterator_init nested_head), nested_tree)"
    by (simp add: tree_iter_def build_def nested_tree_def)
  have 3: "consume 4 (IntervalTreeIterator_init nested_head)
       = ([SimpleInterval 10 20, SimpleInterval 0 100, SimpleInterval 80 90], Some StopIteration)"
    by code_simp
  have 4: "sort_key bounds nested
           = [SimpleInterval 0 100, SimpleInterval 10 20, SimpleInterval 80 90]"
    by code_simp
  from 1 2 3 4 show ?thesis by blast
qed

text \<open>
  C10: \<open>__iter__\<close> of the tree of \<open>_itree.py\<close> returns the tree itself, and every call of
  \<open>__next__\<close> returns \<open>None\<close> and raises nothing, so a loop over the tree gets \<open>None\<close> as
  often as it asks, never an interval and never \<open>StopIteration\<close>, whatever the tree holds.
\<close>

theorem itree_next_never_stops:
  "itree_iter t = t
   \<and> itree_next t = (Inr None, t)
   \<and> itree_consume n (itree_iter t) = (replicate n None, None, t)"
  by (induction n) (simp_all add: itree_iter_def itree_next_def)

end
